theory Spec2Isabelle
  imports Complex_Main "HOL-Library.Log_Nat"
begin

section \<open>JavaScript values\<close>

text \<open>
  A JavaScript number is a double. Every finite double is a rational, so the finite
  numbers are modelled by \<open>rat\<close>, next to the three special values. The only
  arithmetic the server does on numbers that come from outside is \<open>x * 0.5\<close>,
  \<open>Math.round\<close>, \<open>Math.max\<close> and \<open>Math.min\<close>; on doubles each of them
  returns the exact rational result (halving is exact up to underflow, which
  \<open>Math.round\<close> sends to zero anyway), so no rounding is written out there. The
  sign of zero is not modelled: no operation below tells \<open>-0\<close> from \<open>0\<close>.
\<close>

datatype jsnum = NaN | NegInf | Fin rat | PosInf

text \<open>The relation \<open>a < b\<close> on numbers; every comparison with \<open>NaN\<close> is false.\<close>

fun js_less :: "jsnum \<Rightarrow> jsnum \<Rightarrow> bool" where
  "js_less NaN b = False"
| "js_less a NaN = False"
| "js_less a NegInf = False"
| "js_less NegInf b = True"
| "js_less PosInf b = False"
| "js_less (Fin a) PosInf = True"
| "js_less (Fin a) (Fin b) = (a < b)"

fun jsign :: "jsnum \<Rightarrow> rat" where
  "jsign NaN = 0"
| "jsign NegInf = - 1"
| "jsign (Fin a) = sgn a"
| "jsign PosInf = 1"

text \<open>The operator \<open>*\<close>: an infinity times zero is \<open>NaN\<close>.\<close>

fun js_times :: "jsnum \<Rightarrow> jsnum \<Rightarrow> jsnum" where
  "js_times NaN b = NaN"
| "js_times a NaN = NaN"
| "js_times (Fin a) (Fin b) = Fin (a * b)"
| "js_times a b =
     (let s = jsign a * jsign b
      in if s = 0 then NaN else if 0 < s then PosInf else NegInf)"

text \<open>
  Where the programs multiply or add doubles and the exact result need not be a
  double (a random value times 3 or 6, a sum of such products), the result is the
  nearest double, a tie going to the even significand. \<open>to_double\<close> is that
  rounding for the normal range of doubles (53 significant bits; neither overflow
  nor subnormal numbers occur at the magnitudes the programs reach): \<open>exponent x\<close>
  is the \<open>e\<close> with \<open>two_to e \<le> \<bar>x\<bar> < two_to (e + 1)\<close>, and the result is the nearest
  multiple of \<open>two_to (e - 52)\<close>.
\<close>

definition two_to :: "int \<Rightarrow> rat" where
  "two_to e = (if 0 \<le> e then 2 ^ nat e else 1 / 2 ^ nat (- e))"

definition exponent :: "rat \<Rightarrow> int" where
  "exponent x =
     (let (p, q) = quotient_of \<bar>x\<bar>;
          d = bitlen p - bitlen q
      in if two_to d \<le> \<bar>x\<bar> then d else d - 1)"

definition round_half_even :: "rat \<Rightarrow> int" where
  "round_half_even y =
     (let f = \<lfloor>y\<rfloor>; d = y - of_int f
      in if d < 1 / 2 then f else if 1 / 2 < d then f + 1
         else if even f then f else f + 1)"

definition to_double :: "rat \<Rightarrow> rat" where
  "to_double x =
     (if x = 0 then 0
      else let u = two_to (exponent x - 52) in u * of_int (round_half_even (x / u)))"

text \<open>
  \<open>Math.round\<close> rounds to the nearest integer, a tie towards \<open>+\<infinity>\<close>;
  \<open>Math.max\<close> and \<open>Math.min\<close> of two numbers return \<open>NaN\<close> when either is.
\<close>

definition round_half_up :: "rat \<Rightarrow> int" where
  "round_half_up a = \<lfloor>a + 1 / 2\<rfloor>"

fun Math_round :: "jsnum \<Rightarrow> jsnum" where
  "Math_round (Fin a) = Fin (of_int (round_half_up a))"
| "Math_round NaN = NaN"
| "Math_round NegInf = NegInf"
| "Math_round PosInf = PosInf"

fun Math_max :: "jsnum \<Rightarrow> jsnum \<Rightarrow> jsnum" where
  "Math_max NaN b = NaN"
| "Math_max a NaN = NaN"
| "Math_max a b = (if js_less a b then b else a)"

fun Math_min :: "jsnum \<Rightarrow> jsnum \<Rightarrow> jsnum" where
  "Math_min NaN b = NaN"
| "Math_min a NaN = NaN"
| "Math_min a b = (if js_less b a then b else a)"

text \<open>
  The values \<open>JSON.parse\<close> and \<open>express.json\<close> produce, and \<open>undefined\<close>
  for a property that is absent. An object is the list of its own properties.
\<close>

datatype jsval =
    Undefined
  | Null
  | Bool bool
  | Num jsnum
  | Str string
  | Arr "jsval list"
  | Obj "(string \<times> jsval) list"

text \<open>What \<open>!v\<close>, \<open>&&\<close> and \<open>||\<close> test.\<close>

fun truthy :: "jsval \<Rightarrow> bool" where
  "truthy Undefined = False"
| "truthy Null = False"
| "truthy (Bool b) = b"
| "truthy (Num n) = (n \<noteq> NaN \<and> n \<noteq> Fin 0)"
| "truthy (Str s) = (s \<noteq> [])"
| "truthy (Arr xs) = True"
| "truthy (Obj kvs) = True"

text \<open>
  What the program can throw: an \<open>Error\<close> with its message, or the runtime's
  \<open>TypeError\<close>, whose message is the engine's own text.
\<close>

datatype exn = Error string | TypeError

text \<open>
  \<open>ToNumber\<close>, applied by \<open>*\<close>, \<open>Math.max\<close> and \<open>Math.min\<close> to their
  arguments. On a string, an array or an object the conversion is the runtime's
  (its number grammar, and \<open>ToPrimitive\<close>, which can throw); it is the parameter
  \<open>coerce\<close>, and every theorem holds for every such function.
\<close>

fun ToNumber :: "(jsval \<Rightarrow> exn + jsnum) \<Rightarrow> jsval \<Rightarrow> exn + jsnum" where
  "ToNumber coerce Undefined = Inr NaN"
| "ToNumber coerce Null = Inr (Fin 0)"
| "ToNumber coerce (Bool b) = Inr (Fin (if b then 1 else 0))"
| "ToNumber coerce (Num n) = Inr n"
| "ToNumber coerce v = coerce v"

text \<open>Sequencing of steps that may throw: the first exception ends the sequence.\<close>

fun and_then :: "exn + 'a \<Rightarrow> ('a \<Rightarrow> exn + 'b) \<Rightarrow> exn + 'b" where
  "and_then (Inl e) f = Inl e"
| "and_then (Inr x) f = f x"

section \<open>The server\<close>

subsection \<open>Requests, the model's reply, responses\<close>

text \<open>
  A request body, as \<open>express.json\<close> hands it to a handler: the own properties of
  the parsed object. Destructuring reads a property by name and yields
  \<open>undefined\<close> when it is absent. (The names the handlers read are not inherited
  from a prototype, so the own properties decide every read.)
\<close>

type_synonym body = "(string \<times> jsval) list"

definition read_key :: "body \<Rightarrow> string \<Rightarrow> jsval" where
  "read_key b k = (case map_of b k of Some v \<Rightarrow> v | None \<Rightarrow> Undefined)"

text \<open>
  The two module variables set at start-up: \<open>True\<close> when the variable holds a
  client, \<open>False\<close> when it is still \<open>undefined\<close>.
\<close>

record ai_client =
  genAI :: bool
  model :: bool

text \<open>
  What comes back from the model, seen from the handler: building the prompt or the
  call throws (with the message of what was thrown, empty when it has none), or the
  reply's text cannot be decoded (the match and \<open>JSON.parse\<close> throw), or it
  decodes to a value. The reply is an input of the handlers: the theorems hold for
  every reply.
\<close>

datatype upstream = Throws string | BadFormat | Parsed jsval

datatype errmsg = Text string | EngineText

record evaluation_result =
  clarity :: jsnum
  confidence :: jsnum
  clarityFeedback :: jsval
  confidenceFeedback :: jsval
  analysis :: jsval

text \<open>
  The status and the object given to \<open>res.json\<close>; a property the handler does not
  write is \<open>None\<close>.
\<close>

record response =
  status :: nat
  success :: bool
  error :: "errmsg option"
  mode :: "string option"
  evaluation :: "evaluation_result option"
  feedback :: "jsval option"

text \<open>\<open>res.status(code).json({ success: false, error: msg })\<close>\<close>

definition json_error :: "nat \<Rightarrow> errmsg \<Rightarrow> response" where
  "json_error code msg =
     \<lparr>status = code, success = False, error = Some msg, mode = None,
      evaluation = None, feedback = None\<rparr>"

text \<open>\<open>error.message || fallback\<close>\<close>

fun error_message :: "exn \<Rightarrow> string \<Rightarrow> errmsg" where
  "error_message (Error m) fallback = Text (if m = [] then fallback else m)"
| "error_message TypeError fallback = EngineText"

subsection \<open>The variable \<open>evaluation\<close>\<close>

text \<open>
  The handler reads and assigns properties of the decoded value. The variable is the
  decoded value together with the assignments made so far. Reading a property of
  \<open>null\<close> throws; assigning a property of \<open>null\<close> or of a primitive throws
  (the file is a module, so it runs in strict mode); an object or an array takes
  the assignment.
\<close>

record object_var =
  parsed :: jsval
  assigned :: "string \<rightharpoonup> jsval"

fun is_nullish :: "jsval \<Rightarrow> bool" where
  "is_nullish Undefined = True"
| "is_nullish Null = True"
| "is_nullish v = False"

fun is_object :: "jsval \<Rightarrow> bool" where
  "is_object (Arr xs) = True"
| "is_object (Obj kvs) = True"
| "is_object v = False"

fun own_property :: "jsval \<Rightarrow> string \<Rightarrow> jsval" where
  "own_property (Obj kvs) k = read_key kvs k"
| "own_property v k = Undefined"

definition get_property :: "object_var \<Rightarrow> string \<Rightarrow> exn + jsval" where
  "get_property e k =
     (if is_nullish (parsed e) then Inl TypeError
      else Inr (case assigned e k of Some v \<Rightarrow> v | None \<Rightarrow> own_property (parsed e) k))"

definition set_property :: "object_var \<Rightarrow> string \<Rightarrow> jsval \<Rightarrow> exn + object_var" where
  "set_property e k v =
     (if is_object (parsed e) then Inr (e\<lparr>assigned := (assigned e)(k \<mapsto> v)\<rparr>)
      else Inl TypeError)"

subsection \<open>\<open>POST /api/evaluate\<close>\<close>

text \<open>The mode, from the request's two flags (tested for truthiness).\<close>

definition determine_mode :: "jsval \<Rightarrow> jsval \<Rightarrow> string" where
  "determine_mode hasFace hasVoice =
     (if truthy hasFace \<and> truthy hasVoice then ''Human Face + Voice''
      else if \<not> truthy hasFace \<and> truthy hasVoice then ''Only Voice''
      else ''No Voice'')"

text \<open>The call of the model and the decoding of its reply, up to the value decoded.\<close>

fun ask_model :: "upstream \<Rightarrow> exn + jsval" where
  "ask_model (Throws m) = Inl (Error m)"
| "ask_model BadFormat = Inl (Error ''Invalid response format from AI'')"
| "ask_model (Parsed v) = Inr v"

text \<open>The mode-based adjustments, assignment by assignment.\<close>

definition adjust ::
  "(jsval \<Rightarrow> exn + jsnum) \<Rightarrow> string \<Rightarrow> object_var \<Rightarrow> exn + object_var" where
  "adjust coerce m e =
     (if m = ''Only Voice'' then
        and_then (get_property e ''confidence'') (\<lambda>c.
        and_then (ToNumber coerce c) (\<lambda>n.
        and_then (set_property e ''confidence''
                    (Num (Math_round (js_times n (Fin (1 / 2)))))) (\<lambda>e1.
        set_property e1 ''confidenceFeedback''
          (Str ''Enable your camera to receive full confidence scoring and feedback.''))))
      else if m = ''No Voice'' then
        and_then (set_property e ''clarity'' (Num (Fin 0))) (\<lambda>e1.
        and_then (set_property e1 ''confidence'' (Num (Fin 0))) (\<lambda>e2.
        and_then (set_property e2 ''clarityFeedback''
          (Str ''Please speak clearly into your microphone to receive clarity feedback.'')) (\<lambda>e3.
        set_property e3 ''confidenceFeedback''
          (Str ''Start speaking and enable your camera for a complete evaluation.''))))
      else Inr e)"

text \<open>\<open>Math.min(10, Math.max(0, v))\<close>\<close>

definition clamp_score :: "(jsval \<Rightarrow> exn + jsnum) \<Rightarrow> jsval \<Rightarrow> exn + jsnum" where
  "clamp_score coerce v =
     and_then (ToNumber coerce v) (\<lambda>n. Inr (Math_min (Fin 10) (Math_max (Fin 0) n)))"

text \<open>The \<open>evaluation\<close> object of the response, property by property.\<close>

definition build_evaluation ::
  "(jsval \<Rightarrow> exn + jsnum) \<Rightarrow> object_var \<Rightarrow> exn + evaluation_result" where
  "build_evaluation coerce e =
     and_then (get_property e ''clarity'') (\<lambda>c.
     and_then (clamp_score coerce c) (\<lambda>cl.
     and_then (get_property e ''confidence'') (\<lambda>d.
     and_then (clamp_score coerce d) (\<lambda>co.
     and_then (get_property e ''clarityFeedback'') (\<lambda>cf.
     and_then (get_property e ''confidenceFeedback'') (\<lambda>df.
     and_then (get_property e ''analysis'') (\<lambda>a.
     Inr \<lparr>clarity = cl, confidence = co, clarityFeedback = cf,
          confidenceFeedback = df, analysis = a\<rparr>)))))))"

text \<open>
  The handler: validation, the configuration check, the mode, the model's reply, the
  adjustments, the response. Whatever is thrown on the way is caught and answered
  with status 500.
\<close>

definition evaluate_handler ::
  "(jsval \<Rightarrow> exn + jsnum) \<Rightarrow> ai_client \<Rightarrow> body \<Rightarrow> upstream \<Rightarrow> response" where
  "evaluate_handler coerce ai b up =
     (let transcript = read_key b ''transcript'';
          hasFace = read_key b ''hasFace'';
          hasVoice = read_key b ''hasVoice''
      in if \<not> truthy transcript \<and> \<not> truthy hasVoice then
           json_error 400 (Text ''No speech data provided'')
         else if \<not> genAI ai \<or> \<not> model ai then
           json_error 503
             (Text ''Gemini AI not configured. Please add GEMINI_API_KEY to .env file'')
         else
           (let m = determine_mode hasFace hasVoice
            in case and_then (ask_model up) (\<lambda>v.
                    and_then (adjust coerce m \<lparr>parsed = v, assigned = Map.empty\<rparr>)
                      (build_evaluation coerce)) of
                 Inl x \<Rightarrow> json_error 500 (error_message x ''Failed to evaluate speech'')
               | Inr ev \<Rightarrow>
                   \<lparr>status = 200, success = True, error = None, mode = Some m,
                    evaluation = Some ev, feedback = None\<rparr>))"

subsection \<open>\<open>POST /api/feedback\<close>\<close>

definition clarityTips :: "string list" where
  "clarityTips =
     [''Try to articulate each word more clearly and avoid mumbling.'',
      ''Speak with more structured sentences to boost clarity.'',
      ''Reduce filler words like 'um' and 'uh' for better clarity.'',
      ''Practice enunciating consonants more precisely.'',
      ''Slow down your speaking pace to improve clarity.'',
      ''Focus on completing your thoughts before moving to the next point.'']"

definition confidenceTips :: "string list" where
  "confidenceTips =
     [''Maintain eye contact with the camera to project confidence.'',
      ''Reduce pauses and hesitations while speaking.'',
      ''Speak with a stronger, more assertive tone.'',
      ''Keep your posture upright and face the camera directly.'',
      ''Practice deep breathing to reduce nervousness in your voice.'',
      ''Use hand gestures naturally to enhance your message.'']"

text \<open>
  \<open>tips[Math.floor(r * tips.length)]\<close>, where \<open>r\<close> is what \<open>Math.random()\<close>
  returned; the product is a double, and an index outside the array reads
  \<open>undefined\<close>.
\<close>

definition pick :: "string list \<Rightarrow> rat \<Rightarrow> jsval" where
  "pick tips r =
     (let i = \<lfloor>to_double (r * of_nat (length tips))\<rfloor>
      in if 0 \<le> i \<and> i < int (length tips) then Str (tips ! nat i) else Undefined)"

text \<open>
  The fallback feedback, from the scores \<open>c\<close> and \<open>d\<close> (which it ignores) and
  the mode \<open>m\<close>. \<open>rnd 0\<close> and \<open>rnd 1\<close> are the values of the first and
  the second call of \<open>Math.random()\<close> the function makes.
\<close>

definition getFallbackFeedback :: "(nat \<Rightarrow> rat) \<Rightarrow> jsval \<Rightarrow> jsval \<Rightarrow> jsval \<Rightarrow> jsval" where
  "getFallbackFeedback rnd c d m =
     (let confidenceTip = pick confidenceTips (rnd 0)
      in if m = Str ''Only Voice'' then
           Obj [(''clarityTip'', pick clarityTips (rnd 1)),
                (''confidenceTip'',
                 Str ''Enable your camera to receive full confidence scoring and feedback.'')]
         else if m = Str ''No Voice'' then
           Obj [(''clarityTip'',
                 Str ''Please speak clearly into your microphone to receive clarity feedback.''),
                (''confidenceTip'',
                 Str ''Start speaking and enable your camera for a complete evaluation.'')]
         else
           Obj [(''clarityTip'', pick clarityTips (rnd 1)),
                (''confidenceTip'', confidenceTip)])"

text \<open>
  What reaches the route. \<open>express.json\<close> either fails on the body (it passes its
  error on, the handler is skipped and the error-handling middleware answers), or
  finds no JSON body and leaves \<open>req.body\<close> undefined, or sets \<open>req.body\<close> to
  the parsed object.
\<close>

datatype delivery = Unparsable | NoBody | JsonBody body

text \<open>\<open>req.body.k\<close>, and the destructuring of \<open>req.body\<close>: both throw on \<open>undefined\<close>.\<close>

definition read_body :: "body option \<Rightarrow> string \<Rightarrow> exn + jsval" where
  "read_body rb k = (case rb of None \<Rightarrow> Inl TypeError | Some b \<Rightarrow> Inr (read_key b k))"

text \<open>\<open>res.json({ success: true, feedback: v })\<close>\<close>

definition feedback_response :: "jsval \<Rightarrow> response" where
  "feedback_response v =
     \<lparr>status = 200, success = True, error = None, mode = None, evaluation = None,
      feedback = Some v\<rparr>"

text \<open>
  The handler, for \<open>req.body\<close> an object (\<open>Some\<close>) or \<open>undefined\<close> (\<open>None\<close>).
  Without a client it answers with the fallback at once; otherwise a call that
  throws, or a reply that cannot be decoded, lands in the \<open>catch\<close> block, which
  answers with the fallback too. The \<open>catch\<close> block reads \<open>req.body\<close> again: what
  it throws is not caught, and the handler ends without a response (\<open>Inl\<close>).
\<close>

definition feedback_handler ::
  "(nat \<Rightarrow> rat) \<Rightarrow> ai_client \<Rightarrow> body option \<Rightarrow> upstream \<Rightarrow> exn + response" where
  "feedback_handler rnd ai rb up =
     (case and_then (read_body rb ''clarity'') (\<lambda>c.
           and_then (read_body rb ''confidence'') (\<lambda>d.
           and_then (read_body rb ''mode'') (\<lambda>m.
             if \<not> genAI ai \<or> \<not> model ai then
               Inr (feedback_response (getFallbackFeedback rnd c d m))
             else
               and_then (ask_model up) (\<lambda>v. Inr (feedback_response v))))) of
        Inr r \<Rightarrow> Inr r
      | Inl x \<Rightarrow>
          and_then (read_body rb ''clarity'') (\<lambda>c.
          and_then (read_body rb ''confidence'') (\<lambda>d.
          and_then (read_body rb ''mode'') (\<lambda>m.
            Inr (feedback_response (getFallbackFeedback rnd c d m))))))"

text \<open>
  The error-handling middleware, and the route as a whole. An error of
  \<open>express.json\<close>, and a handler that ends by throwing (Express 5, the version
  that leaves \<open>req.body\<close> undefined, forwards the rejection), are answered by the
  middleware.
\<close>

definition error_middleware :: response where
  "error_middleware = json_error 500 (Text ''Internal server error'')"

definition post_feedback :: "(nat \<Rightarrow> rat) \<Rightarrow> ai_client \<Rightarrow> delivery \<Rightarrow> upstream \<Rightarrow> response" where
  "post_feedback rnd ai q up =
     (case q of
        Unparsable \<Rightarrow> error_middleware
      | NoBody \<Rightarrow>
          (case feedback_handler rnd ai None up of
             Inl x \<Rightarrow> error_middleware | Inr r \<Rightarrow> r)
      | JsonBody b \<Rightarrow>
          (case feedback_handler rnd ai (Some b) up of
             Inl x \<Rightarrow> error_middleware | Inr r \<Rightarrow> r))"

section \<open>The browser application\<close>

subsection \<open>The evaluator object\<close>

record state =
  isRecording :: bool
  faceDetected :: bool
  voiceDetected :: bool
  evaluationCount :: nat
  totalClarity :: rat
  totalConfidence :: rat
  sessionDuration :: nat
  backendAvailable :: bool

datatype recorder_state = inactive | recording | paused

text \<open>
  The elements of the page the modelled methods write: the three buttons, the video
  overlay, the status texts, the two scores and the two feedback texts. (The bars,
  the canvases, the video element and the display of the session statistics are
  left out.)
\<close>

record page =
  startBtn_disabled :: bool
  stopBtn_disabled :: bool
  evaluateBtn_disabled :: bool
  videoOverlay_hidden :: bool
  systemStatus :: string
  faceStatus :: string
  clarityScore :: int
  confidenceScore :: int
  clarityFeedbackText :: jsval
  confidenceFeedbackText :: jsval

text \<open>
  The fields of \<open>this\<close>. A handle is \<open>True\<close> when the field holds one and
  \<open>False\<close> when it is \<open>null\<close>; the recorder is \<open>None\<close> before the first
  session. \<open>currentEmotion\<close> is a field of the object itself, not of
  \<open>this.state\<close>, and is \<open>None\<close> until the audio loop first writes it.
\<close>

record evaluator =
  state :: state
  stream :: bool
  audioContext :: bool
  faceDetectionInterval :: bool
  sessionInterval :: bool
  mediaRecorder :: "recorder_state option"
  currentEmotion :: "string option"
  page :: page

text \<open>
  The object as the field initialisers of the constructor leave it, on a given page.
\<close>

definition new_evaluator :: "page \<Rightarrow> evaluator" where
  "new_evaluator pg =
     \<lparr>state = \<lparr>isRecording = False, faceDetected = False, voiceDetected = False,
               evaluationCount = 0, totalClarity = 0, totalConfidence = 0,
               sessionDuration = 0, backendAvailable = False\<rparr>,
      stream = False, audioContext = False, faceDetectionInterval = False,
      sessionInterval = False, mediaRecorder = None, currentEmotion = None, page = pg\<rparr>"

text \<open>
  \<open>Math.random()\<close>: the source is the sequence of the values still to come
  (doubles, each at least 0 and below 1); a call returns the first and leaves the
  rest.
\<close>

type_synonym random = "nat \<Rightarrow> rat"

definition Math_random :: "random \<Rightarrow> rat \<times> random" where
  "Math_random rnd = (rnd 0, \<lambda>n. rnd (Suc n))"

subsection \<open>\<open>updateDetectionStatus\<close>, \<open>updateSystemStatus\<close>, \<open>stopPractice\<close>\<close>

definition updateDetectionStatus :: "evaluator \<Rightarrow> evaluator" where
  "updateDetectionStatus ev =
     ev\<lparr>page := (page ev)\<lparr>faceStatus :=
       (if faceDetected (state ev) then ''Detected'' else ''Not Detected'')\<rparr>\<rparr>"

definition updateSystemStatus :: "string \<Rightarrow> evaluator \<Rightarrow> evaluator" where
  "updateSystemStatus txt ev = ev\<lparr>page := (page ev)\<lparr>systemStatus := txt\<rparr>\<rparr>"

definition stopPractice :: "evaluator \<Rightarrow> evaluator" where
  "stopPractice ev =
     (let ev1 = (case mediaRecorder ev of
                   None \<Rightarrow> ev
                 | Some r \<Rightarrow> if r \<noteq> inactive then ev\<lparr>mediaRecorder := Some inactive\<rparr> else ev);
          ev2 = (if stream ev1 then ev1\<lparr>stream := False\<rparr> else ev1);
          ev3 = (if audioContext ev2 then ev2\<lparr>audioContext := False\<rparr> else ev2);
          ev4 = (if faceDetectionInterval ev3 then ev3\<lparr>faceDetectionInterval := False\<rparr> else ev3);
          ev5 = (if sessionInterval ev4 then ev4\<lparr>sessionInterval := False\<rparr> else ev4);
          ev6 = ev5\<lparr>page := (page ev5)\<lparr>videoOverlay_hidden := False\<rparr>\<rparr>;
          ev7 = ev6\<lparr>state := (state ev6)\<lparr>isRecording := False, faceDetected := False,
                                          voiceDetected := False\<rparr>\<rparr>;
          ev8 = ev7\<lparr>page := (page ev7)\<lparr>startBtn_disabled := False, stopBtn_disabled := True,
                                        evaluateBtn_disabled := True\<rparr>\<rparr>;
          ev9 = (if backendAvailable (state ev8)
                 then updateSystemStatus ''AI-Powered Mode Active'' ev8
                 else updateSystemStatus ''Local Mode'' ev8)
      in updateDetectionStatus ev9)"

subsection \<open>The audio loop\<close>

text \<open>
  One tick of \<open>draw\<close>. \<open>finalDb\<close> is the larger of two results of
  \<open>Math.round\<close>, an integer; how it is computed from the analyser's buffer is
  floating-point arithmetic and stays outside the model, so the level is the
  tick's input.
\<close>

definition emotionTone :: "int \<Rightarrow> string" where
  "emotionTone finalDb =
     (if finalDb > 40 then ''Energetic''
      else if finalDb > 25 then ''Confident''
      else if finalDb > 10 then ''Calm''
      else if finalDb > 3 then ''Soft''
      else ''Neutral'')"

definition draw :: "int \<Rightarrow> evaluator \<Rightarrow> evaluator" where
  "draw finalDb ev =
     (if \<not> isRecording (state ev) then ev
      else updateDetectionStatus
             (ev\<lparr>state := (state ev)\<lparr>voiceDetected := (finalDb > 3)\<rparr>,
                 currentEmotion := Some (emotionTone finalDb)\<rparr>))"

subsection \<open>The local evaluator\<close>

definition calculateClarity :: "random \<Rightarrow> evaluator \<Rightarrow> int \<times> random" where
  "calculateClarity rnd ev =
     (let (r, rnd1) = Math_random rnd;
          baseClarity = to_double (5 + to_double (r * 3));
          voiceBonus = (if voiceDetected (state ev) then 2 else 0)
      in (min 10 (round_half_up (to_double (baseClarity + voiceBonus))), rnd1))"

definition calculateConfidence :: "random \<Rightarrow> evaluator \<Rightarrow> int \<times> random" where
  "calculateConfidence rnd ev =
     (let (baseFaceConfidence, rnd1) =
            (if faceDetected (state ev)
             then (let (r, rnd') = Math_random rnd
                   in (to_double (4 + to_double (r * 3)), rnd'))
             else (0, rnd));
          (voiceConfidence, rnd2) =
            (if voiceDetected (state ev)
             then (let (r, rnd') = Math_random rnd1
                   in (to_double (2 + to_double (r * 2)), rnd'))
             else (0, rnd1))
      in (min 10 (round_half_up (to_double (baseFaceConfidence + voiceConfidence))), rnd2))"

text \<open>
  The branch on the two flags at the head of \<open>evaluateLocally\<close>: the clarity, the
  confidence and the mode it leaves in its three local variables. (Doubling a
  double and halving an integer are exact, so these two products are written
  without rounding.)
\<close>

definition local_scores ::
  "random \<Rightarrow> evaluator \<Rightarrow> bool \<Rightarrow> bool \<Rightarrow> (int \<times> int \<times> string) \<times> random" where
  "local_scores rnd ev hasFace hasVoice =
     (if hasFace \<and> hasVoice then
        (let (c, rnd1) = calculateClarity rnd ev;
             (d, rnd2) = calculateConfidence rnd1 ev
         in ((c, d, ''Human Face + Voice''), rnd2))
      else if \<not> hasFace \<and> hasVoice then
        (let (c, rnd1) = calculateClarity rnd ev;
             (d, rnd2) = calculateConfidence rnd1 ev
         in ((c, round_half_up (of_int d * (1 / 2)), ''Only Voice''), rnd2))
      else
        (let (r1, rnd1) = Math_random rnd;
             (r2, rnd2) = Math_random rnd1
         in ((5 + round_half_up (r1 * 2), 3 + round_half_up (r2 * 2), ''No Voice''), rnd2)))"

definition displayResults :: "int \<Rightarrow> int \<Rightarrow> string \<Rightarrow> evaluator \<Rightarrow> evaluator" where
  "displayResults c d m ev =
     ev\<lparr>page := (page ev)\<lparr>clarityScore := c, confidenceScore := d\<rparr>\<rparr>"

definition generateFeedback ::
  "random \<Rightarrow> int \<Rightarrow> int \<Rightarrow> string \<Rightarrow> evaluator \<Rightarrow> evaluator \<times> random" where
  "generateFeedback rnd c d m ev =
     (if m = ''Only Voice'' then
        (let ev1 = ev\<lparr>page := (page ev)\<lparr>confidenceFeedbackText :=
                     Str ''Enable your camera to receive full confidence scoring and feedback.''\<rparr>\<rparr>;
             (r, rnd1) = Math_random rnd
         in (ev1\<lparr>page := (page ev1)\<lparr>clarityFeedbackText := pick clarityTips r\<rparr>\<rparr>, rnd1))
      else if m = ''No Voice'' then
        (ev\<lparr>page := (page ev)\<lparr>
            clarityFeedbackText :=
              Str ''Please speak clearly into your microphone to receive clarity feedback.'',
            confidenceFeedbackText :=
              Str ''Start speaking and enable your camera for a complete evaluation.''\<rparr>\<rparr>, rnd)
      else
        (let (r, rnd1) = Math_random rnd;
             ev1 = ev\<lparr>page := (page ev)\<lparr>confidenceFeedbackText := pick confidenceTips r\<rparr>\<rparr>;
             (r', rnd2) = Math_random rnd1
         in (ev1\<lparr>page := (page ev1)\<lparr>clarityFeedbackText := pick clarityTips r'\<rparr>\<rparr>, rnd2)))"

definition evaluateLocally :: "random \<Rightarrow> evaluator \<Rightarrow> bool \<Rightarrow> bool \<Rightarrow> evaluator \<times> random" where
  "evaluateLocally rnd ev hasFace hasVoice =
     (let ((c, d, m), rnd1) = local_scores rnd ev hasFace hasVoice;
          ev1 = ev\<lparr>state := (state ev)\<lparr>
                  evaluationCount := evaluationCount (state ev) + 1,
                  totalClarity := totalClarity (state ev) + of_int c,
                  totalConfidence := totalConfidence (state ev) + of_int d\<rparr>\<rparr>
      in generateFeedback rnd1 c d m (displayResults c d m ev1))"

section \<open>Properties\<close>

text \<open>
  The two properties the specification asks of a returned score: it lies in the
  closed interval from 0 to 10, and it is an integer.
\<close>

definition in_0_10 :: "jsnum \<Rightarrow> bool" where
  "in_0_10 n = (case n of Fin q \<Rightarrow> 0 \<le> q \<and> q \<le> 10 | _ \<Rightarrow> False)"

definition is_integer :: "jsnum \<Rightarrow> bool" where
  "is_integer n = (case n of Fin q \<Rightarrow> of_int \<lfloor>q\<rfloor> = q | _ \<Rightarrow> False)"

subsection \<open>Rounding to doubles\<close>

lemma two_to_powi: "two_to e = 2 powi e"
  by (simp add: two_to_def power_int_def field_simps)

lemma exponent_bounds:
  assumes "x \<noteq> 0"
  shows "two_to (exponent x) \<le> \<bar>x\<bar> \<and> \<bar>x\<bar> < two_to (exponent x + 1)"
proof -
  obtain p q where pq: "quotient_of \<bar>x\<bar> = (p, q)"
    by (cases "quotient_of \<bar>x\<bar>")
  then have q: "0 < q" and x: "\<bar>x\<bar> = of_int p / of_int q"
    by (simp_all add: quotient_of_denom_pos quotient_of_div)
  from assms have "0 < \<bar>x\<bar>" by simp
  with x q have p: "0 < p"
    by (simp add: zero_less_divide_iff)
  let ?d = "bitlen p - bitlen q"
  from bitlen_bounds [OF p] have p1: "2 ^ nat (bitlen p - 1) \<le> p" and p2: "p < 2 ^ nat (bitlen p)"
    by simp_all
  from bitlen_bounds [OF q] have q1: "2 ^ nat (bitlen q - 1) \<le> q" and q2: "q < 2 ^ nat (bitlen q)"
    by simp_all
  have bp: "1 \<le> bitlen p" and bq: "1 \<le> bitlen q"
    using p q by (auto simp: bitlen_alt_def)
  have P1: "(2::rat) powi (bitlen p - 1) \<le> of_int p"
  proof -
    have "(2::rat) powi (bitlen p - 1) = 2 ^ nat (bitlen p - 1)"
      using bp by (simp add: power_int_def)
    also have "\<dots> = of_int (2 ^ nat (bitlen p - 1))" by simp
    also have "\<dots> \<le> of_int p" using p1 by (simp only: of_int_le_iff)
    finally show ?thesis .
  qed
  have P2: "of_int p < (2::rat) powi (bitlen p)"
  proof -
    have "of_int p < (of_int (2 ^ nat (bitlen p)) :: rat)" using p2 by (simp only: of_int_less_iff)
    also have "\<dots> = 2 powi (bitlen p)" using bp by (simp add: power_int_def)
    finally show ?thesis .
  qed
  have Q1: "(2::rat) powi (bitlen q - 1) \<le> of_int q"
  proof -
    have "(2::rat) powi (bitlen q - 1) = 2 ^ nat (bitlen q - 1)"
      using bq by (simp add: power_int_def)
    also have "\<dots> = of_int (2 ^ nat (bitlen q - 1))" by simp
    also have "\<dots> \<le> of_int q" using q1 by (simp only: of_int_le_iff)
    finally show ?thesis .
  qed
  have Q2: "of_int q < (2::rat) powi (bitlen q)"
  proof -
    have "of_int q < (of_int (2 ^ nat (bitlen q)) :: rat)" using q2 by (simp only: of_int_less_iff)
    also have "\<dots> = 2 powi (bitlen q)" using bq by (simp add: power_int_def)
    finally show ?thesis .
  qed
  have qpos: "(0::rat) < of_int q" using q by simp
  have lo: "(2::rat) powi (?d - 1) < \<bar>x\<bar>"
  proof -
    have "(2::rat) powi (?d - 1) * of_int q < 2 powi (?d - 1) * 2 powi (bitlen q)"
      using Q2 by (simp add: mult_strict_left_mono)
    also have "\<dots> = 2 powi (bitlen p - 1)"
      by (simp add: power_int_add [symmetric])
    also have "\<dots> \<le> of_int p" by (rule P1)
    finally show ?thesis
      unfolding x using qpos by (simp add: pos_less_divide_eq)
  qed
  have hi: "\<bar>x\<bar> < (2::rat) powi (?d + 1)"
  proof -
    have "of_int p < (2::rat) powi (bitlen p)" by (rule P2)
    also have "\<dots> = 2 powi (?d + 1) * 2 powi (bitlen q - 1)"
      by (simp add: power_int_add [symmetric])
    also have "\<dots> \<le> 2 powi (?d + 1) * of_int q"
      using Q1 by (simp add: mult_left_mono)
    finally show ?thesis
      unfolding x using qpos by (simp add: pos_divide_less_eq)
  qed
  show ?thesis
  proof (cases "two_to ?d \<le> \<bar>x\<bar>")
    case True
    then have "exponent x = ?d" by (simp add: exponent_def pq)
    with True hi show ?thesis by (simp add: two_to_powi)
  next
    case False
    then have "exponent x = ?d - 1" by (simp add: exponent_def pq)
    with False lo show ?thesis by (simp add: two_to_powi)
  qed
qed

lemma round_half_even_near: "\<bar>of_int (round_half_even y) - y\<bar> \<le> 1 / 2"
proof -
  have "of_int \<lfloor>y\<rfloor> \<le> y" "y < of_int \<lfloor>y\<rfloor> + 1"
    by linarith+
  then show ?thesis
    by (auto simp: round_half_even_def Let_def)
qed

lemma two_to_pos: "0 < two_to e"
  by (simp add: two_to_def)

lemma to_double_near:
  "\<bar>to_double x - x\<bar> \<le> two_to (exponent x - 52) / 2"
proof (cases "x = 0")
  case True
  then show ?thesis by (simp add: to_double_def less_imp_le [OF two_to_pos])
next
  case False
  let ?u = "two_to (exponent x - 52)"
  have u: "0 < ?u" by (rule two_to_pos)
  have "\<bar>to_double x - x\<bar> = \<bar>?u * (of_int (round_half_even (x / ?u)) - x / ?u)\<bar>"
    using False u by (simp add: to_double_def Let_def right_diff_distrib)
  also have "\<dots> = ?u * \<bar>of_int (round_half_even (x / ?u)) - x / ?u\<bar>"
    using u by (simp add: abs_mult)
  also have "\<dots> \<le> ?u * (1 / 2)"
    using u round_half_even_near [of "x / ?u"] by (intro mult_left_mono) simp_all
  finally show ?thesis by simp
qed


text \<open>
  Three values at which the doubles differ from the exact results: \<open>0.1\<close> is not
  a binary fraction; at \<open>r = 0.8333333333333333\<close> the product \<open>r * 6\<close> is the
  double 5, so the sixth tip is picked; at \<open>r = 0.16666666666666666\<close> the sum
  \<open>5 + r * 3\<close> is the double 5.5, so the clarity is 6.
\<close>

lemma to_double_tenth: "to_double (1 / 10) = 3602879701896397 / 36028797018963968"
  by code_simp

lemma pick_in_doubles:
  "pick clarityTips (3752999689475413 / 4503599627370496) =
     Str ''Focus on completing your thoughts before moving to the next point.''"
proof -
  have "to_double (3752999689475413 / 4503599627370496 * 6) = 5"
    by code_simp
  then show ?thesis
    by (simp add: pick_def clarityTips_def)
qed

lemma calculateClarity_in_doubles:
  assumes "\<not> voiceDetected (state ev)"
  shows "fst (calculateClarity (\<lambda>n. 6004799503160661 / 36028797018963968) ev) = 6"
proof -
  have exact: "to_double (18014398509481983 / 36028797018963968) = 1 / 2"
    "to_double (11 / 2) = 11 / 2" "round_half_up (11 / 2) = 6"
    by code_simp+
  from assms show ?thesis
    by (simp add: calculateClarity_def Math_random_def exact)
qed

subsection \<open>Numbers and exceptions\<close>

lemma clamp_range:
  "Math_min (Fin 10) (Math_max (Fin 0) n) = NaN \<or> in_0_10 (Math_min (Fin 10) (Math_max (Fin 0) n))"
  by (cases n) (auto simp: in_0_10_def)

lemma clamp_number: "n \<noteq> NaN \<Longrightarrow> in_0_10 (Math_min (Fin 10) (Math_max (Fin 0) n))"
  by (cases n) (auto simp: in_0_10_def)

lemma clamp_id: "in_0_10 n \<Longrightarrow> Math_min (Fin 10) (Math_max (Fin 0) n) = n"
  by (cases n) (auto simp: in_0_10_def)

lemma clamp_integer: "is_integer n \<Longrightarrow> is_integer (Math_min (Fin 10) (Math_max (Fin 0) n))"
  by (cases n) (auto simp: is_integer_def min_def max_def)

lemma round_integer:
  "n \<noteq> NaN \<Longrightarrow>
   is_integer (Math_min (Fin 10) (Math_max (Fin 0) (Math_round (js_times n (Fin (1 / 2))))))"
  by (cases n) (auto simp: is_integer_def min_def max_def Let_def)

lemma round_clamped:
  "n \<noteq> NaN \<Longrightarrow>
   in_0_10 (Math_min (Fin 10) (Math_max (Fin 0) (Math_round (js_times n (Fin (1 / 2))))))"
  by (cases n) (auto simp: in_0_10_def min_def max_def Let_def)

lemma is_integer_zero: "is_integer (Fin 0)"
  by (simp add: is_integer_def)

lemma in_0_10_zero: "in_0_10 (Fin 0)"
  by (simp add: in_0_10_def)

lemma and_then_Inr: "and_then x f = Inr y \<longleftrightarrow> (\<exists>a. x = Inr a \<and> f a = Inr y)"
  by (cases x) auto

lemma is_object_not_nullish: "is_object v \<Longrightarrow> \<not> is_nullish v"
  by (cases v) auto

lemma get_property_fresh:
  "\<not> is_nullish v \<Longrightarrow>
   get_property \<lparr>parsed = v, assigned = Map.empty\<rparr> k = Inr (own_property v k)"
  by (simp add: get_property_def)

subsection \<open>The steps of \<open>POST /api/evaluate\<close>\<close>

lemma determine_mode_cases:
  "determine_mode f h = ''Human Face + Voice'' \<and> truthy f \<and> truthy h
   \<or> determine_mode f h = ''Only Voice'' \<and> \<not> truthy f \<and> truthy h
   \<or> determine_mode f h = ''No Voice'' \<and> \<not> truthy h"
  by (auto simp: determine_mode_def)

text \<open>
  A successful response is reached on one path only: validation and the configuration
  check pass, the reply decodes, and neither the adjustments nor the construction of
  the response throw.
\<close>

lemma success_cases:
  assumes "success (evaluate_handler coerce ai b up)"
  shows "\<exists>v e ev. up = Parsed v
     \<and> (truthy (read_key b ''transcript'') \<or> truthy (read_key b ''hasVoice''))
     \<and> genAI ai \<and> model ai
     \<and> adjust coerce (determine_mode (read_key b ''hasFace'') (read_key b ''hasVoice''))
          \<lparr>parsed = v, assigned = Map.empty\<rparr> = Inr e
     \<and> build_evaluation coerce e = Inr ev
     \<and> evaluate_handler coerce ai b up =
          \<lparr>status = 200, success = True, error = None,
           mode = Some (determine_mode (read_key b ''hasFace'') (read_key b ''hasVoice'')),
           evaluation = Some ev, feedback = None\<rparr>"
  using assms
  by (cases up)
    (auto simp: evaluate_handler_def json_error_def Let_def and_then_Inr
      split: sum.splits if_splits)

lemma build_evaluation_Inr:
  assumes "build_evaluation coerce e = Inr ev"
  shows "\<exists>c d nc nd cf df a.
      get_property e ''clarity'' = Inr c \<and> ToNumber coerce c = Inr nc
    \<and> get_property e ''confidence'' = Inr d \<and> ToNumber coerce d = Inr nd
    \<and> get_property e ''clarityFeedback'' = Inr cf
    \<and> get_property e ''confidenceFeedback'' = Inr df
    \<and> get_property e ''analysis'' = Inr a
    \<and> ev = \<lparr>clarity = Math_min (Fin 10) (Math_max (Fin 0) nc),
             confidence = Math_min (Fin 10) (Math_max (Fin 0) nd),
             clarityFeedback = cf, confidenceFeedback = df, analysis = a\<rparr>"
  using assms unfolding build_evaluation_def clamp_score_def and_then_Inr
  by auto

lemma adjust_face_voice: "adjust coerce ''Human Face + Voice'' e = Inr e"
  by (simp add: adjust_def)

lemma adjust_only_voice:
  assumes "adjust coerce ''Only Voice'' e = Inr e'"
  shows "\<exists>c n. is_object (parsed e) \<and> get_property e ''confidence'' = Inr c
     \<and> ToNumber coerce c = Inr n
     \<and> e' = e\<lparr>assigned := (assigned e)
          (''confidence'' \<mapsto> Num (Math_round (js_times n (Fin (1 / 2)))),
           ''confidenceFeedback'' \<mapsto>
             Str ''Enable your camera to receive full confidence scoring and feedback.'')\<rparr>"
  using assms
  by (auto simp: adjust_def and_then_Inr set_property_def split: if_splits)

lemma adjust_no_voice:
  assumes "adjust coerce ''No Voice'' e = Inr e'"
  shows "is_object (parsed e)
     \<and> e' = e\<lparr>assigned := (assigned e)
          (''clarity'' \<mapsto> Num (Fin 0), ''confidence'' \<mapsto> Num (Fin 0),
           ''clarityFeedback'' \<mapsto>
             Str ''Please speak clearly into your microphone to receive clarity feedback.'',
           ''confidenceFeedback'' \<mapsto>
             Str ''Start speaking and enable your camera for a complete evaluation.'')\<rparr>"
  using assms
  by (auto simp: adjust_def and_then_Inr set_property_def split: if_splits)

subsection \<open>The browser application\<close>


lemma emotionTone_range:
  "range emotionTone = {''Neutral'', ''Soft'', ''Calm'', ''Confident'', ''Energetic''}"
proof
  show "range emotionTone \<subseteq> {''Neutral'', ''Soft'', ''Calm'', ''Confident'', ''Energetic''}"
    by (auto simp: emotionTone_def)
  have "emotionTone 0 = ''Neutral''" "emotionTone 5 = ''Soft''" "emotionTone 15 = ''Calm''"
    "emotionTone 30 = ''Confident''" "emotionTone 50 = ''Energetic''"
    by (simp_all add: emotionTone_def)
  then show "{''Neutral'', ''Soft'', ''Calm'', ''Confident'', ''Energetic''} \<subseteq> range emotionTone"
    by (metis empty_subsetI insert_subset rangeI)
qed

lemma emotionTone_card: "card (range emotionTone) = 5"
  unfolding emotionTone_range by simp

section \<open>The claims\<close>

text \<open>
  In the concrete instances below the conversion parameter is \<open>\<lambda>v. Inr NaN\<close>; every
  score in them is a number, \<open>null\<close> or absent, so the parameter is never consulted.
\<close>

text \<open>
  C1. For every pair of booleans the derived mode is one of three pairwise different
  labels: both flags set give "Human Face + Voice", voice without face gives
  "Only Voice", and the two pairs without voice give "No Voice". The server's
  derivation and the branch at the head of the browser's local evaluator agree on
  all four pairs, and a successful response of the endpoint carries that mode.
\<close>

theorem mode_of_flags:
  "determine_mode (Bool hasFace) (Bool hasVoice) =
     (if hasFace \<and> hasVoice then ''Human Face + Voice''
      else if \<not> hasFace \<and> hasVoice then ''Only Voice'' else ''No Voice'')
   \<and> snd (snd (fst (local_scores rnd ev hasFace hasVoice))) =
       determine_mode (Bool hasFace) (Bool hasVoice)
   \<and> determine_mode (Bool True) (Bool False) = ''No Voice''
   \<and> determine_mode (Bool False) (Bool False) = ''No Voice''
   \<and> distinct [''Human Face + Voice'', ''Only Voice'', ''No Voice'']
   \<and> mode (evaluate_handler coerce ai b up) =
       (if success (evaluate_handler coerce ai b up)
        then Some (determine_mode (read_key b ''hasFace'') (read_key b ''hasVoice''))
        else None)"
proof -
  have server: "determine_mode (Bool hasFace) (Bool hasVoice) =
     (if hasFace \<and> hasVoice then ''Human Face + Voice''
      else if \<not> hasFace \<and> hasVoice then ''Only Voice'' else ''No Voice'')"
    by (simp add: determine_mode_def)
  have browser: "snd (snd (fst (local_scores rnd ev hasFace hasVoice))) =
       determine_mode (Bool hasFace) (Bool hasVoice)"
    by (simp add: local_scores_def determine_mode_def split: prod.splits)
  have response: "mode (evaluate_handler coerce ai b up) =
       (if success (evaluate_handler coerce ai b up)
        then Some (determine_mode (read_key b ''hasFace'') (read_key b ''hasVoice''))
        else None)"
    by (simp add: evaluate_handler_def json_error_def Let_def split: sum.splits)
  show ?thesis
    using server browser response by (simp add: determine_mode_def)
qed

text \<open>
  An instance: voice without face. Both derivations give "Only Voice", and the
  successful response of the endpoint carries it.
\<close>

theorem mode_of_flags_witness:
  "determine_mode (Bool False) (Bool True) = ''Only Voice''
   \<and> snd (snd (fst (local_scores (\<lambda>n. 1 / 2)
        (new_evaluator
          \<lparr>startBtn_disabled = False, stopBtn_disabled = True, evaluateBtn_disabled = True,
           videoOverlay_hidden = False, systemStatus = ''Local Mode'',
           faceStatus = ''Not Detected'', clarityScore = 0, confidenceScore = 0,
           clarityFeedbackText = Str [], confidenceFeedbackText = Str []\<rparr>)
        False True))) = ''Only Voice''
   \<and> mode (evaluate_handler (\<lambda>v. Inr NaN) \<lparr>genAI = True, model = True\<rparr>
        [(''transcript'', Str ''Hello''), (''hasFace'', Bool False), (''hasVoice'', Bool True)]
        (Parsed (Obj [(''clarity'', Num (Fin 8)), (''confidence'', Num (Fin 7))]))) =
       Some ''Only Voice''"
proof -
  let ?b = "[(''transcript'', Str ''Hello''), (''hasFace'', Bool False), (''hasVoice'', Bool True)]"
  let ?up = "Parsed (Obj [(''clarity'', Num (Fin 8)), (''confidence'', Num (Fin 7))])"
  let ?ev = "new_evaluator
          \<lparr>startBtn_disabled = False, stopBtn_disabled = True, evaluateBtn_disabled = True,
           videoOverlay_hidden = False, systemStatus = ''Local Mode'',
           faceStatus = ''Not Detected'', clarityScore = 0, confidenceScore = 0,
           clarityFeedbackText = Str [], confidenceFeedbackText = Str []\<rparr>"
  have s: "success (evaluate_handler (\<lambda>v. Inr NaN) \<lparr>genAI = True, model = True\<rparr> ?b ?up)"
    by (simp add: evaluate_handler_def determine_mode_def read_key_def adjust_def
        get_property_def set_property_def build_evaluation_def clamp_score_def)
  have k: "read_key ?b ''hasFace'' = Bool False" "read_key ?b ''hasVoice'' = Bool True"
    by (simp_all add: read_key_def)
  from mode_of_flags
    [of False True "\<lambda>n. 1 / 2" ?ev "\<lambda>v. Inr NaN" "\<lparr>genAI = True, model = True\<rparr>" ?b ?up] s k
  show ?thesis
    by simp
qed

text \<open>
  C2 (as amended). In every successful response of \<open>/api/evaluate\<close> each of the two
  scores is \<open>NaN\<close> (which \<open>res.json\<close> writes as \<open>null\<close>) or a number between 0 and
  10. It is a number between 0 and 10 whenever the model's value for it is a number,
  and an integer whenever the model's value is an integer. The handler clamps and
  never rounds the clarity, so a model value that is not an integer can come back as
  it is, and a value that does not convert to a number comes back as \<open>NaN\<close>.
\<close>

theorem scores_in_range:
  assumes "success (evaluate_handler coerce ai b up)"
  shows "\<exists>ev. evaluation (evaluate_handler coerce ai b up) = Some ev
     \<and> (clarity ev = NaN \<or> in_0_10 (clarity ev))
     \<and> (confidence ev = NaN \<or> in_0_10 (confidence ev))
     \<and> (\<forall>v n. up = Parsed v \<and> own_property v ''clarity'' = Num n \<and> n \<noteq> NaN
            \<longrightarrow> in_0_10 (clarity ev) \<and> (is_integer n \<longrightarrow> is_integer (clarity ev)))
     \<and> (\<forall>v n. up = Parsed v \<and> own_property v ''confidence'' = Num n \<and> n \<noteq> NaN
            \<longrightarrow> in_0_10 (confidence ev) \<and> (is_integer n \<longrightarrow> is_integer (confidence ev)))"
proof -
  let ?m = "determine_mode (read_key b ''hasFace'') (read_key b ''hasVoice'')"
  let ?fresh = "\<lparr>parsed = v, assigned = Map.empty\<rparr>"
  from success_cases [OF assms] obtain v e ev where
    up: "up = Parsed v"
    and adj: "adjust coerce ?m \<lparr>parsed = v, assigned = Map.empty\<rparr> = Inr e"
    and bld: "build_evaluation coerce e = Inr ev"
    and res: "evaluation (evaluate_handler coerce ai b up) = Some ev"
    by auto
  from build_evaluation_Inr [OF bld] obtain c d nc nd where
    gc: "get_property e ''clarity'' = Inr c" and tc: "ToNumber coerce c = Inr nc"
    and gd: "get_property e ''confidence'' = Inr d" and td: "ToNumber coerce d = Inr nd"
    and cl: "clarity ev = Math_min (Fin 10) (Math_max (Fin 0) nc)"
    and co: "confidence ev = Math_min (Fin 10) (Math_max (Fin 0) nd)"
    by auto
  have r1: "clarity ev = NaN \<or> in_0_10 (clarity ev)"
    unfolding cl by (rule clamp_range)
  have r2: "confidence ev = NaN \<or> in_0_10 (confidence ev)"
    unfolding co by (rule clamp_range)
  have modes: "?m = ''Human Face + Voice'' \<or> ?m = ''Only Voice'' \<or> ?m = ''No Voice''"
    using determine_mode_cases by blast
  have nn: "\<not> is_nullish v"
    using gc adj modes
      adjust_only_voice [of coerce "\<lparr>parsed = v, assigned = Map.empty\<rparr>" e]
      adjust_no_voice [of coerce "\<lparr>parsed = v, assigned = Map.empty\<rparr>" e]
    by (auto simp: adjust_face_voice get_property_def is_object_not_nullish split: if_splits)
  have i1: "in_0_10 (clarity ev) \<and> (is_integer n \<longrightarrow> is_integer (clarity ev))"
    if "own_property v ''clarity'' = Num n" "n \<noteq> NaN" for n
  proof -
    from modes have "nc = n \<or> nc = Fin 0"
    proof (elim disjE)
      assume "?m = ''Human Face + Voice''"
      with adj have "e = \<lparr>parsed = v, assigned = Map.empty\<rparr>"
        by (simp add: adjust_face_voice)
      with gc tc nn that show ?thesis by (auto simp: get_property_fresh)
    next
      assume "?m = ''Only Voice''"
      with adj adjust_only_voice [of coerce "\<lparr>parsed = v, assigned = Map.empty\<rparr>" e]
      show ?thesis using gc tc nn that by (auto simp: get_property_def)
    next
      assume "?m = ''No Voice''"
      with adj adjust_no_voice [of coerce "\<lparr>parsed = v, assigned = Map.empty\<rparr>" e]
      show ?thesis using gc tc nn by (auto simp: get_property_def)
    qed
    with that(2) show ?thesis
      unfolding cl by (auto simp: clamp_integer clamp_number is_integer_zero in_0_10_zero)
  qed
  have i2: "in_0_10 (confidence ev) \<and> (is_integer n \<longrightarrow> is_integer (confidence ev))"
    if "own_property v ''confidence'' = Num n" "n \<noteq> NaN" for n
  proof -
    from modes have "nd = n \<or> nd = Fin 0 \<or> nd = Math_round (js_times n (Fin (1 / 2)))"
    proof (elim disjE)
      assume "?m = ''Human Face + Voice''"
      with adj have "e = \<lparr>parsed = v, assigned = Map.empty\<rparr>"
        by (simp add: adjust_face_voice)
      with gd td nn that show ?thesis by (auto simp: get_property_fresh)
    next
      assume "?m = ''Only Voice''"
      with adj adjust_only_voice [of coerce "\<lparr>parsed = v, assigned = Map.empty\<rparr>" e]
      show ?thesis using gd td nn that by (auto simp: get_property_def)
    next
      assume "?m = ''No Voice''"
      with adj adjust_no_voice [of coerce "\<lparr>parsed = v, assigned = Map.empty\<rparr>" e]
      show ?thesis using gd td nn by (auto simp: get_property_def)
    qed
    with that(2) show ?thesis
      unfolding co
      by (auto simp: clamp_integer clamp_number is_integer_zero in_0_10_zero round_integer
          round_clamped)
  qed
  from res r1 r2 i1 i2 up show ?thesis by auto
qed

text \<open>
  An instance: face and voice present, the model answers clarity 8 and confidence 12;
  the response is successful and carries the integers 8 and 10.
\<close>

theorem scores_in_range_witness:
  "success (evaluate_handler (\<lambda>v. Inr NaN) \<lparr>genAI = True, model = True\<rparr>
     [(''transcript'', Str ''Hello''), (''hasFace'', Bool True), (''hasVoice'', Bool True)]
     (Parsed (Obj [(''clarity'', Num (Fin 8)), (''confidence'', Num (Fin 12))])))
   \<and> (\<exists>ev. evaluation (evaluate_handler (\<lambda>v. Inr NaN) \<lparr>genAI = True, model = True\<rparr>
        [(''transcript'', Str ''Hello''), (''hasFace'', Bool True), (''hasVoice'', Bool True)]
        (Parsed (Obj [(''clarity'', Num (Fin 8)), (''confidence'', Num (Fin 12))]))) = Some ev
      \<and> clarity ev = Fin 8 \<and> confidence ev = Fin 10
      \<and> is_integer (clarity ev) \<and> in_0_10 (clarity ev)
      \<and> is_integer (confidence ev) \<and> in_0_10 (confidence ev))"
proof -
  let ?b = "[(''transcript'', Str ''Hello''), (''hasFace'', Bool True), (''hasVoice'', Bool True)]"
  let ?v = "Obj [(''clarity'', Num (Fin 8)), (''confidence'', Num (Fin 12))]"
  let ?r = "evaluate_handler (\<lambda>v. Inr NaN) \<lparr>genAI = True, model = True\<rparr> ?b (Parsed ?v)"
  have r: "?r = \<lparr>status = 200, success = True, error = None,
      mode = Some ''Human Face + Voice'',
      evaluation = Some \<lparr>clarity = Fin 8, confidence = Fin 10, clarityFeedback = Undefined,
                         confidenceFeedback = Undefined, analysis = Undefined\<rparr>,
      feedback = None\<rparr>"
    by (simp add: evaluate_handler_def determine_mode_def read_key_def adjust_def
        get_property_def set_property_def build_evaluation_def clamp_score_def)
  then have s: "success ?r" by simp
  have p: "own_property ?v ''clarity'' = Num (Fin 8)"
    "own_property ?v ''confidence'' = Num (Fin 12)"
    by (simp_all add: read_key_def)
  have i: "is_integer (Fin 8)" "is_integer (Fin 12)"
    by (simp_all add: is_integer_def)
  from scores_in_range [OF s] obtain ev where
    ev: "evaluation ?r = Some ev"
    and c: "\<forall>v n. Parsed ?v = Parsed v \<and> own_property v ''clarity'' = Num n \<and> n \<noteq> NaN
            \<longrightarrow> in_0_10 (clarity ev) \<and> (is_integer n \<longrightarrow> is_integer (clarity ev))"
    and d: "\<forall>v n. Parsed ?v = Parsed v \<and> own_property v ''confidence'' = Num n \<and> n \<noteq> NaN
            \<longrightarrow> in_0_10 (confidence ev) \<and> (is_integer n \<longrightarrow> is_integer (confidence ev))"
    by blast
  have nn: "Fin 8 \<noteq> NaN" "Fin 12 \<noteq> NaN"
    by simp_all
  from c p(1) i(1) nn(1) have "is_integer (clarity ev) \<and> in_0_10 (clarity ev)" by blast
  moreover from d p(2) i(2) nn(2) have "is_integer (confidence ev) \<and> in_0_10 (confidence ev)"
    by blast
  moreover from ev r have "clarity ev = Fin 8 \<and> confidence ev = Fin 10" by auto
  ultimately show ?thesis using s ev by blast
qed

text \<open>
  The claim as stated fails: with face and voice present, a model reply with clarity
  7.5 and no confidence is answered successfully with clarity 7.5, which is not an
  integer, and confidence \<open>NaN\<close>, which is no number between 0 and 10.
\<close>

theorem scores_in_range_counterexample:
  "evaluate_handler (\<lambda>v. Inr NaN) \<lparr>genAI = True, model = True\<rparr>
     [(''transcript'', Str ''Hello''), (''hasFace'', Bool True), (''hasVoice'', Bool True)]
     (Parsed (Obj [(''clarity'', Num (Fin (15 / 2))), (''analysis'', Str ''Good.'')])) =
     \<lparr>status = 200, success = True, error = None, mode = Some ''Human Face + Voice'',
      evaluation = Some \<lparr>clarity = Fin (15 / 2), confidence = NaN, clarityFeedback = Undefined,
                         confidenceFeedback = Undefined, analysis = Str ''Good.''\<rparr>,
      feedback = None\<rparr>
   \<and> \<not> is_integer (Fin (15 / 2)) \<and> \<not> is_integer NaN \<and> \<not> in_0_10 NaN"
proof -
  have "\<not> is_integer (Fin (15 / 2))"
    by code_simp
  then show ?thesis
    by (simp add: evaluate_handler_def determine_mode_def read_key_def adjust_def
        get_property_def set_property_def build_evaluation_def clamp_score_def
        is_integer_def in_0_10_def)
qed


text \<open>
  C3. When the derived mode is "No Voice", every successful response of
  \<open>/api/evaluate\<close> has clarity 0, confidence 0 and the two fixed sentences as
  feedback, whatever the model replied; only the analysis is the model's.
\<close>

theorem no_voice_zeroes:
  assumes "determine_mode (read_key b ''hasFace'') (read_key b ''hasVoice'') = ''No Voice''"
    and "success (evaluate_handler coerce ai b up)"
  shows "\<exists>a. evaluate_handler coerce ai b up =
     \<lparr>status = 200, success = True, error = None, mode = Some ''No Voice'',
      evaluation = Some
        \<lparr>clarity = Fin 0, confidence = Fin 0,
         clarityFeedback =
           Str ''Please speak clearly into your microphone to receive clarity feedback.'',
         confidenceFeedback =
           Str ''Start speaking and enable your camera for a complete evaluation.'',
         analysis = a\<rparr>,
      feedback = None\<rparr>"
proof -
  from success_cases [OF assms(2)] assms(1) obtain v e ev where
    adj: "adjust coerce ''No Voice'' \<lparr>parsed = v, assigned = Map.empty\<rparr> = Inr e"
    and bld: "build_evaluation coerce e = Inr ev"
    and res: "evaluate_handler coerce ai b up =
          \<lparr>status = 200, success = True, error = None, mode = Some ''No Voice'',
           evaluation = Some ev, feedback = None\<rparr>"
    by auto
  from adjust_no_voice [OF adj] have obj: "is_object v"
    and e: "e = \<lparr>parsed = v, assigned = Map.empty
          (''clarity'' \<mapsto> Num (Fin 0), ''confidence'' \<mapsto> Num (Fin 0),
           ''clarityFeedback'' \<mapsto>
             Str ''Please speak clearly into your microphone to receive clarity feedback.'',
           ''confidenceFeedback'' \<mapsto>
             Str ''Start speaking and enable your camera for a complete evaluation.'')\<rparr>"
    by simp_all
  from build_evaluation_Inr [OF bld] obj
  have "clarity ev = Fin 0" "confidence ev = Fin 0"
    "clarityFeedback ev =
       Str ''Please speak clearly into your microphone to receive clarity feedback.''"
    "confidenceFeedback ev =
       Str ''Start speaking and enable your camera for a complete evaluation.''"
    unfolding e by (auto simp: get_property_def is_object_not_nullish)
  then have "ev = \<lparr>clarity = Fin 0, confidence = Fin 0,
         clarityFeedback =
           Str ''Please speak clearly into your microphone to receive clarity feedback.'',
         confidenceFeedback =
           Str ''Start speaking and enable your camera for a complete evaluation.'',
         analysis = analysis ev\<rparr>"
    by simp
  with res show ?thesis by metis
qed

text \<open>
  An instance: a face but no voice, a transcript, and a model that answers scores 9
  and 8 with feedback of its own. The response is successful, and its scores and
  feedback are the fixed ones.
\<close>

theorem no_voice_zeroes_witness:
  "determine_mode (read_key [(''transcript'', Str ''Hello''), (''hasFace'', Bool True),
        (''hasVoice'', Bool False)] ''hasFace'')
     (read_key [(''transcript'', Str ''Hello''), (''hasFace'', Bool True),
        (''hasVoice'', Bool False)] ''hasVoice'') = ''No Voice''
   \<and> evaluate_handler (\<lambda>v. Inr NaN) \<lparr>genAI = True, model = True\<rparr>
       [(''transcript'', Str ''Hello''), (''hasFace'', Bool True), (''hasVoice'', Bool False)]
       (Parsed (Obj [(''clarity'', Num (Fin 9)), (''confidence'', Num (Fin 8)),
                     (''clarityFeedback'', Str ''Slow down.''),
                     (''confidenceFeedback'', Str ''Look up.''),
                     (''analysis'', Str ''Good.'')])) =
     \<lparr>status = 200, success = True, error = None, mode = Some ''No Voice'',
      evaluation = Some
        \<lparr>clarity = Fin 0, confidence = Fin 0,
         clarityFeedback =
           Str ''Please speak clearly into your microphone to receive clarity feedback.'',
         confidenceFeedback =
           Str ''Start speaking and enable your camera for a complete evaluation.'',
         analysis = Str ''Good.''\<rparr>,
      feedback = None\<rparr>"
proof -
  let ?b = "[(''transcript'', Str ''Hello''), (''hasFace'', Bool True), (''hasVoice'', Bool False)]"
  let ?v = "Obj [(''clarity'', Num (Fin 9)), (''confidence'', Num (Fin 8)),
                 (''clarityFeedback'', Str ''Slow down.''),
                 (''confidenceFeedback'', Str ''Look up.''),
                 (''analysis'', Str ''Good.'')]"
  let ?r = "evaluate_handler (\<lambda>v. Inr NaN) \<lparr>genAI = True, model = True\<rparr> ?b (Parsed ?v)"
  have m: "determine_mode (read_key ?b ''hasFace'') (read_key ?b ''hasVoice'') = ''No Voice''"
    by (simp add: determine_mode_def read_key_def)
  have s: "success ?r"
    by (simp add: evaluate_handler_def determine_mode_def read_key_def adjust_def
        get_property_def set_property_def build_evaluation_def clamp_score_def)
  have a: "analysis (the (evaluation ?r)) = Str ''Good.''"
    by (simp add: evaluate_handler_def determine_mode_def read_key_def adjust_def
        get_property_def set_property_def build_evaluation_def clamp_score_def)
  from no_voice_zeroes [OF m s] obtain x where
    "?r = \<lparr>status = 200, success = True, error = None, mode = Some ''No Voice'',
      evaluation = Some
        \<lparr>clarity = Fin 0, confidence = Fin 0,
         clarityFeedback =
           Str ''Please speak clearly into your microphone to receive clarity feedback.'',
         confidenceFeedback =
           Str ''Start speaking and enable your camera for a complete evaluation.'',
         analysis = x\<rparr>,
      feedback = None\<rparr>"
    by blast
  with a m show ?thesis by simp
qed

text \<open>
  C4 (as amended). When the derived mode is "Only Voice" and the model's confidence
  is a number \<open>c\<close>, every successful response carries the confidence
  \<open>min(10, max(0, round(c * 0.5)))\<close> and the fixed camera sentence as confidence
  feedback. The confidence equals \<open>round(c * 0.5)\<close> when that lies between 0 and
  10, and differs from it otherwise: the final clamp applies to it too.
\<close>

theorem only_voice_confidence:
  assumes "determine_mode (read_key b ''hasFace'') (read_key b ''hasVoice'') = ''Only Voice''"
    and "success (evaluate_handler coerce ai b up)"
    and "up = Parsed v"
    and "own_property v ''confidence'' = Num c"
  shows "\<exists>ev. evaluate_handler coerce ai b up =
          \<lparr>status = 200, success = True, error = None, mode = Some ''Only Voice'',
           evaluation = Some ev, feedback = None\<rparr>
     \<and> confidence ev =
         Math_min (Fin 10) (Math_max (Fin 0) (Math_round (js_times c (Fin (1 / 2)))))
     \<and> confidenceFeedback ev =
         Str ''Enable your camera to receive full confidence scoring and feedback.''
     \<and> (if in_0_10 (Math_round (js_times c (Fin (1 / 2))))
        then confidence ev = Math_round (js_times c (Fin (1 / 2)))
        else c = NaN \<or> confidence ev \<noteq> Math_round (js_times c (Fin (1 / 2))))"
proof -
  from success_cases [OF assms(2)] assms(1,3) obtain e ev where
    adj: "adjust coerce ''Only Voice'' \<lparr>parsed = v, assigned = Map.empty\<rparr> = Inr e"
    and bld: "build_evaluation coerce e = Inr ev"
    and res: "evaluate_handler coerce ai b up =
          \<lparr>status = 200, success = True, error = None, mode = Some ''Only Voice'',
           evaluation = Some ev, feedback = None\<rparr>"
    by auto
  from adjust_only_voice [OF adj] assms(4) have obj: "is_object v"
    and e: "e = \<lparr>parsed = v, assigned = Map.empty
          (''confidence'' \<mapsto> Num (Math_round (js_times c (Fin (1 / 2)))),
           ''confidenceFeedback'' \<mapsto>
             Str ''Enable your camera to receive full confidence scoring and feedback.'')\<rparr>"
    by (auto simp: get_property_def split: if_splits)
  from build_evaluation_Inr [OF bld] obj
  have c: "confidence ev =
         Math_min (Fin 10) (Math_max (Fin 0) (Math_round (js_times c (Fin (1 / 2)))))"
    and f: "confidenceFeedback ev =
         Str ''Enable your camera to receive full confidence scoring and feedback.''"
    unfolding e by (auto simp: get_property_def is_object_not_nullish)
  have "in_0_10 (Math_round (js_times c (Fin (1 / 2)))) \<Longrightarrow>
      confidence ev = Math_round (js_times c (Fin (1 / 2)))"
    using c by (simp add: clamp_id)
  moreover have "\<not> in_0_10 (Math_round (js_times c (Fin (1 / 2)))) \<Longrightarrow> c \<noteq> NaN \<Longrightarrow>
      confidence ev \<noteq> Math_round (js_times c (Fin (1 / 2)))"
    using c clamp_range [of "Math_round (js_times c (Fin (1 / 2)))"]
    by (cases c) (auto simp: Let_def)
  ultimately show ?thesis using res c f by auto
qed

text \<open>
  An instance: voice without face, and a model that answers confidence 7; the
  response carries \<open>round(3.5) = 4\<close>.
\<close>

theorem only_voice_confidence_witness:
  "determine_mode (read_key [(''transcript'', Str ''Hello''), (''hasFace'', Bool False),
        (''hasVoice'', Bool True)] ''hasFace'')
     (read_key [(''transcript'', Str ''Hello''), (''hasFace'', Bool False),
        (''hasVoice'', Bool True)] ''hasVoice'') = ''Only Voice''
   \<and> (\<exists>ev. evaluate_handler (\<lambda>v. Inr NaN) \<lparr>genAI = True, model = True\<rparr>
          [(''transcript'', Str ''Hello''), (''hasFace'', Bool False), (''hasVoice'', Bool True)]
          (Parsed (Obj [(''clarity'', Num (Fin 8)), (''confidence'', Num (Fin 7))])) =
          \<lparr>status = 200, success = True, error = None, mode = Some ''Only Voice'',
           evaluation = Some ev, feedback = None\<rparr>
        \<and> confidence ev = Fin 4
        \<and> confidenceFeedback ev =
            Str ''Enable your camera to receive full confidence scoring and feedback.'')"
proof -
  let ?b = "[(''transcript'', Str ''Hello''), (''hasFace'', Bool False), (''hasVoice'', Bool True)]"
  let ?v = "Obj [(''clarity'', Num (Fin 8)), (''confidence'', Num (Fin 7))]"
  have m: "determine_mode (read_key ?b ''hasFace'') (read_key ?b ''hasVoice'') = ''Only Voice''"
    by (simp add: determine_mode_def read_key_def)
  have s: "success (evaluate_handler (\<lambda>v. Inr NaN) \<lparr>genAI = True, model = True\<rparr> ?b (Parsed ?v))"
    by (simp add: evaluate_handler_def determine_mode_def read_key_def adjust_def
        get_property_def set_property_def build_evaluation_def clamp_score_def)
  have p: "own_property ?v ''confidence'' = Num (Fin 7)"
    by (simp add: read_key_def)
  from only_voice_confidence [OF m s refl p] m show ?thesis
    by (auto simp: round_half_up_def)
qed

text \<open>
  The claim as stated fails: with voice and no face, a model confidence of 30 is
  answered with confidence 10, while \<open>round(30 * 0.5)\<close> is 15.
\<close>

theorem only_voice_confidence_counterexample:
  "evaluate_handler (\<lambda>v. Inr NaN) \<lparr>genAI = True, model = True\<rparr>
     [(''transcript'', Str ''Hello''), (''hasFace'', Bool False), (''hasVoice'', Bool True)]
     (Parsed (Obj [(''clarity'', Num (Fin 8)), (''confidence'', Num (Fin 30))])) =
     \<lparr>status = 200, success = True, error = None, mode = Some ''Only Voice'',
      evaluation = Some
        \<lparr>clarity = Fin 8, confidence = Fin 10, clarityFeedback = Undefined,
         confidenceFeedback =
           Str ''Enable your camera to receive full confidence scoring and feedback.'',
         analysis = Undefined\<rparr>,
      feedback = None\<rparr>
   \<and> Math_round (js_times (Fin 30) (Fin (1 / 2))) = Fin 15"
proof -
  have "round_half_up 15 = 15"
    by code_simp
  then show ?thesis
    by (simp add: evaluate_handler_def determine_mode_def read_key_def adjust_def
        get_property_def set_property_def build_evaluation_def clamp_score_def)
qed


text \<open>
  C5. The endpoint answers 400 exactly when the transcript and the voice flag of the
  body are both falsy, whatever the other properties, the configuration and the
  model are. So a body whose transcript is absent or empty and whose \<open>hasVoice\<close>
  is \<open>false\<close> gets the 400 response, and a body whose transcript is a non-empty
  string, or whose \<open>hasVoice\<close> is \<open>true\<close>, does not.
\<close>

theorem bad_request_iff_no_input:
  "(status (evaluate_handler coerce ai b up) = 400) =
     (\<not> truthy (read_key b ''transcript'') \<and> \<not> truthy (read_key b ''hasVoice''))
   \<and> ((read_key b ''transcript'' = Undefined \<or> read_key b ''transcript'' = Str [])
        \<and> read_key b ''hasVoice'' = Bool False
      \<longrightarrow> evaluate_handler coerce ai b up = json_error 400 (Text ''No speech data provided''))
   \<and> ((\<exists>s. s \<noteq> [] \<and> read_key b ''transcript'' = Str s) \<or> read_key b ''hasVoice'' = Bool True
      \<longrightarrow> status (evaluate_handler coerce ai b up) \<noteq> 400)"
proof -
  have general: "(status (evaluate_handler coerce ai b up) = 400) =
     (\<not> truthy (read_key b ''transcript'') \<and> \<not> truthy (read_key b ''hasVoice''))"
    by (auto simp: evaluate_handler_def json_error_def Let_def split: sum.splits)
  have taken: "evaluate_handler coerce ai b up = json_error 400 (Text ''No speech data provided'')"
    if "read_key b ''transcript'' = Undefined \<or> read_key b ''transcript'' = Str []"
      and "read_key b ''hasVoice'' = Bool False"
    using that by (auto simp: evaluate_handler_def)
  have not_taken: "status (evaluate_handler coerce ai b up) \<noteq> 400"
    if "(\<exists>s. s \<noteq> [] \<and> read_key b ''transcript'' = Str s) \<or> read_key b ''hasVoice'' = Bool True"
    using that general by auto
  from general taken not_taken show ?thesis by blast
qed

text \<open>
  Instances: an empty transcript with \<open>hasVoice\<close> false and a face is answered 400,
  with or without a client; the same body with \<open>hasVoice\<close> true, and a body with a
  transcript, are not.
\<close>

theorem bad_request_iff_no_input_witness:
  "evaluate_handler (\<lambda>v. Inr NaN) \<lparr>genAI = False, model = False\<rparr>
     [(''transcript'', Str []), (''hasFace'', Bool True), (''hasVoice'', Bool False)]
     (Throws ''unreachable'') = json_error 400 (Text ''No speech data provided'')
   \<and> status (evaluate_handler (\<lambda>v. Inr NaN) \<lparr>genAI = False, model = False\<rparr>
       [(''transcript'', Str []), (''hasFace'', Bool True), (''hasVoice'', Bool True)]
       (Throws ''unreachable'')) \<noteq> 400
   \<and> status (evaluate_handler (\<lambda>v. Inr NaN) \<lparr>genAI = True, model = True\<rparr>
       [(''transcript'', Str ''Hello''), (''hasVoice'', Bool False)] BadFormat) \<noteq> 400"
proof -
  let ?b1 = "[(''transcript'', Str []), (''hasFace'', Bool True), (''hasVoice'', Bool False)]"
  let ?b2 = "[(''transcript'', Str []), (''hasFace'', Bool True), (''hasVoice'', Bool True)]"
  let ?b3 = "[(''transcript'', Str ''Hello''), (''hasVoice'', Bool False)]"
  have h1: "(read_key ?b1 ''transcript'' = Undefined \<or> read_key ?b1 ''transcript'' = Str [])
      \<and> read_key ?b1 ''hasVoice'' = Bool False"
    by (simp add: read_key_def)
  have h2: "(\<exists>s. s \<noteq> [] \<and> read_key ?b2 ''transcript'' = Str s)
      \<or> read_key ?b2 ''hasVoice'' = Bool True"
    by (simp add: read_key_def)
  have h3: "(\<exists>s. s \<noteq> [] \<and> read_key ?b3 ''transcript'' = Str s)
      \<or> read_key ?b3 ''hasVoice'' = Bool True"
    by (simp add: read_key_def)
  from h1 bad_request_iff_no_input
    [of "\<lambda>v. Inr NaN" "\<lparr>genAI = False, model = False\<rparr>" ?b1 "Throws ''unreachable''"]
  have "evaluate_handler (\<lambda>v. Inr NaN) \<lparr>genAI = False, model = False\<rparr> ?b1
      (Throws ''unreachable'') = json_error 400 (Text ''No speech data provided'')"
    by blast
  moreover from h2 bad_request_iff_no_input
    [of "\<lambda>v. Inr NaN" "\<lparr>genAI = False, model = False\<rparr>" ?b2 "Throws ''unreachable''"]
  have "status (evaluate_handler (\<lambda>v. Inr NaN) \<lparr>genAI = False, model = False\<rparr> ?b2
      (Throws ''unreachable'')) \<noteq> 400"
    by blast
  moreover from h3 bad_request_iff_no_input
    [of "\<lambda>v. Inr NaN" "\<lparr>genAI = True, model = True\<rparr>" ?b3 BadFormat]
  have "status (evaluate_handler (\<lambda>v. Inr NaN) \<lparr>genAI = True, model = True\<rparr> ?b3
      BadFormat) \<noteq> 400"
    by blast
  ultimately show ?thesis by blast
qed

text \<open>
  C6 (as amended). For every request whose body \<open>express.json\<close> has parsed,
  whatever its properties, the configuration, the random source and the outcome of
  the call are, \<open>/api/feedback\<close> answers with status 200, \<open>success\<close> true and no
  \<open>error\<close> property. The feedback is the decoded reply when there is a client and
  the reply decodes; in every other case (no client, a call that throws, a reply
  that cannot be decoded) it is the fallback feedback. A body that cannot be parsed
  never reaches the handler: the error-handling middleware answers it with status
  500 and an \<open>error\<close> property.
\<close>

theorem feedback_ok_for_parsed_body:
  "status (post_feedback rnd ai (JsonBody b) up) = 200
   \<and> success (post_feedback rnd ai (JsonBody b) up)
   \<and> error (post_feedback rnd ai (JsonBody b) up) = None
   \<and> feedback (post_feedback rnd ai (JsonBody b) up) =
       Some (case up of
               Parsed v \<Rightarrow>
                 if genAI ai \<and> model ai then v
                 else getFallbackFeedback rnd (read_key b ''clarity'')
                        (read_key b ''confidence'') (read_key b ''mode'')
             | _ \<Rightarrow> getFallbackFeedback rnd (read_key b ''clarity'')
                        (read_key b ''confidence'') (read_key b ''mode''))
   \<and> post_feedback rnd ai Unparsable up =
       \<lparr>status = 500, success = False, error = Some (Text ''Internal server error''),
        mode = None, evaluation = None, feedback = None\<rparr>"
  by (cases up)
    (simp_all add: post_feedback_def feedback_handler_def read_body_def feedback_response_def
      error_middleware_def json_error_def)

text \<open>
  An instance: no client, the scores 8 and 7 in mode "Only Voice", and a random
  source that always returns one half. The answer is the fallback: the fourth
  clarity tip and the fixed camera sentence.
\<close>

theorem feedback_ok_for_parsed_body_witness:
  "status (post_feedback (\<lambda>n. 1 / 2) \<lparr>genAI = False, model = False\<rparr>
     (JsonBody [(''clarity'', Num (Fin 8)), (''confidence'', Num (Fin 7)),
                (''mode'', Str ''Only Voice'')])
     (Throws [])) = 200
   \<and> success (post_feedback (\<lambda>n. 1 / 2) \<lparr>genAI = False, model = False\<rparr>
     (JsonBody [(''clarity'', Num (Fin 8)), (''confidence'', Num (Fin 7)),
                (''mode'', Str ''Only Voice'')])
     (Throws []))
   \<and> error (post_feedback (\<lambda>n. 1 / 2) \<lparr>genAI = False, model = False\<rparr>
     (JsonBody [(''clarity'', Num (Fin 8)), (''confidence'', Num (Fin 7)),
                (''mode'', Str ''Only Voice'')])
     (Throws [])) = None
   \<and> feedback (post_feedback (\<lambda>n. 1 / 2) \<lparr>genAI = False, model = False\<rparr>
     (JsonBody [(''clarity'', Num (Fin 8)), (''confidence'', Num (Fin 7)),
                (''mode'', Str ''Only Voice'')])
     (Throws [])) =
     Some (Obj [(''clarityTip'', Str ''Practice enunciating consonants more precisely.''),
                (''confidenceTip'',
                 Str ''Enable your camera to receive full confidence scoring and feedback.'')])"
proof -
  have exact: "to_double 3 = 3"
    by code_simp
  from feedback_ok_for_parsed_body [of "\<lambda>n. 1 / 2" "\<lparr>genAI = False, model = False\<rparr>"
      "[(''clarity'', Num (Fin 8)), (''confidence'', Num (Fin 7)), (''mode'', Str ''Only Voice'')]"
      "Throws []"]
  show ?thesis
    by (simp add: getFallbackFeedback_def pick_def clarityTips_def confidenceTips_def
        read_key_def exact)
qed

text \<open>
  The claim as stated fails. A request without a JSON body leaves \<open>req.body\<close>
  undefined: the destructuring throws, the \<open>catch\<close> block throws again on
  \<open>req.body.clarity\<close>, and the answer is the middleware's, status 500 with an
  \<open>error\<close> property. A body that cannot be parsed gets the same answer.
\<close>

theorem feedback_ok_for_parsed_body_counterexample:
  "feedback_handler (\<lambda>n. 1 / 2) \<lparr>genAI = True, model = True\<rparr> None
     (Parsed (Obj [(''clarityTip'', Str ''Slow down.''), (''confidenceTip'', Str ''Look up.'')])) =
     Inl TypeError
   \<and> post_feedback (\<lambda>n. 1 / 2) \<lparr>genAI = True, model = True\<rparr> NoBody
       (Parsed (Obj [(''clarityTip'', Str ''Slow down.''), (''confidenceTip'', Str ''Look up.'')])) =
       \<lparr>status = 500, success = False, error = Some (Text ''Internal server error''),
        mode = None, evaluation = None, feedback = None\<rparr>
   \<and> post_feedback (\<lambda>n. 1 / 2) \<lparr>genAI = True, model = True\<rparr> Unparsable
       (Parsed (Obj [(''clarityTip'', Str ''Slow down.''), (''confidenceTip'', Str ''Look up.'')])) =
       \<lparr>status = 500, success = False, error = Some (Text ''Internal server error''),
        mode = None, evaluation = None, feedback = None\<rparr>"
  by (simp add: post_feedback_def feedback_handler_def read_body_def error_middleware_def
      json_error_def)



text \<open>
  C8 (as amended). The audio loop's emotion is determined by the band the level
  falls in, and the thresholds 3, 10, 25 and 40 delimit five bands, one for each
  label: up to 3 "Neutral", above 3 and up to 10 "Soft", above 10 and up to 25
  "Calm", above 25 and up to 40 "Confident", above 40 "Energetic". A tick of the
  loop that runs while recording stores that label, and detects a voice exactly
  when the label is not "Neutral".
\<close>

theorem emotion_bands:
  "emotionTone finalDb =
     (if finalDb \<le> 3 then ''Neutral'' else if finalDb \<le> 10 then ''Soft''
      else if finalDb \<le> 25 then ''Calm'' else if finalDb \<le> 40 then ''Confident''
      else ''Energetic'')
   \<and> range emotionTone = {''Neutral'', ''Soft'', ''Calm'', ''Confident'', ''Energetic''}
   \<and> card (range emotionTone) = 5
   \<and> currentEmotion (draw finalDb ev) =
       (if isRecording (state ev) then Some (emotionTone finalDb) else currentEmotion ev)
   \<and> voiceDetected (state (draw finalDb ev)) =
       (if isRecording (state ev) then emotionTone finalDb \<noteq> ''Neutral''
        else voiceDetected (state ev))"
proof -
  have bands: "emotionTone finalDb =
     (if finalDb \<le> 3 then ''Neutral'' else if finalDb \<le> 10 then ''Soft''
      else if finalDb \<le> 25 then ''Calm'' else if finalDb \<le> 40 then ''Confident''
      else ''Energetic'')"
    by (simp add: emotionTone_def)
  have stored: "currentEmotion (draw finalDb ev) =
       (if isRecording (state ev) then Some (emotionTone finalDb) else currentEmotion ev)"
    by (simp add: draw_def updateDetectionStatus_def)
  have voice: "voiceDetected (state (draw finalDb ev)) =
       (if isRecording (state ev) then emotionTone finalDb \<noteq> ''Neutral''
        else voiceDetected (state ev))"
    by (simp add: draw_def updateDetectionStatus_def emotionTone_def)
  from bands stored voice emotionTone_range emotionTone_card show ?thesis
    by simp
qed

text \<open>
  The claim as stated fails in its count: the levels fall into five bands, not six.
\<close>

theorem emotion_bands_counterexample:
  "card (range emotionTone) = 5 \<and> card (range emotionTone) \<noteq> 6"
  by (simp add: emotionTone_card)

text \<open>
  C9 (as amended). Stopping a session sets \<open>isRecording\<close>, \<open>faceDetected\<close> and
  \<open>voiceDetected\<close> to false and releases the stream, the audio context and the
  two timers. It leaves every other field as it was: the evaluation count, the two
  totals, the session duration, the backend flag and the current emotion survive
  the stop.
\<close>

theorem stop_resets_flags:
  "state (stopPractice ev) =
     (state ev)\<lparr>isRecording := False, faceDetected := False, voiceDetected := False\<rparr>
   \<and> evaluationCount (state (stopPractice ev)) = evaluationCount (state ev)
   \<and> totalClarity (state (stopPractice ev)) = totalClarity (state ev)
   \<and> totalConfidence (state (stopPractice ev)) = totalConfidence (state ev)
   \<and> sessionDuration (state (stopPractice ev)) = sessionDuration (state ev)
   \<and> backendAvailable (state (stopPractice ev)) = backendAvailable (state ev)
   \<and> currentEmotion (stopPractice ev) = currentEmotion ev
   \<and> \<not> stream (stopPractice ev) \<and> \<not> audioContext (stopPractice ev)
   \<and> \<not> faceDetectionInterval (stopPractice ev) \<and> \<not> sessionInterval (stopPractice ev)
   \<and> mediaRecorder (stopPractice ev) \<noteq> Some recording"
proof -
  have st: "state (stopPractice ev) =
     (state ev)\<lparr>isRecording := False, faceDetected := False, voiceDetected := False\<rparr>"
    by (simp add: stopPractice_def Let_def updateDetectionStatus_def updateSystemStatus_def
        split: option.splits)
  have em: "currentEmotion (stopPractice ev) = currentEmotion ev"
    by (simp add: stopPractice_def Let_def updateDetectionStatus_def updateSystemStatus_def
        split: option.splits)
  have handles: "\<not> stream (stopPractice ev)" "\<not> audioContext (stopPractice ev)"
    "\<not> faceDetectionInterval (stopPractice ev)" "\<not> sessionInterval (stopPractice ev)"
    "mediaRecorder (stopPractice ev) \<noteq> Some recording"
    by (simp_all add: stopPractice_def Let_def updateDetectionStatus_def
        updateSystemStatus_def split: option.splits)
  from st em handles show ?thesis
    by simp
qed

text \<open>
  The claim as stated fails: a recording session with face and voice detected runs
  one local evaluation (the random source always returns one half, which gives
  clarity 9 and confidence 9) and is then stopped; the count 1 and the totals 9 and 9
  are still there.
\<close>

theorem stop_resets_flags_counterexample:
  "state (stopPractice (fst (evaluateLocally (\<lambda>n. 1 / 2)
     ((new_evaluator
        \<lparr>startBtn_disabled = True, stopBtn_disabled = False, evaluateBtn_disabled = False,
         videoOverlay_hidden = True, systemStatus = ''Recording (Local Mode)...'',
         faceStatus = ''Detected'', clarityScore = 0, confidenceScore = 0,
         clarityFeedbackText = Str [], confidenceFeedbackText = Str []\<rparr>)
      \<lparr>state := \<lparr>isRecording = True, faceDetected = True, voiceDetected = True,
                  evaluationCount = 0, totalClarity = 0, totalConfidence = 0,
                  sessionDuration = 0, backendAvailable = False\<rparr>,
        stream := True, audioContext := True, faceDetectionInterval := True,
        sessionInterval := True, mediaRecorder := Some recording\<rparr>)
     True True))) =
   \<lparr>isRecording = False, faceDetected = False, voiceDetected = False,
    evaluationCount = 1, totalClarity = 9, totalConfidence = 9,
    sessionDuration = 0, backendAvailable = False\<rparr>"
proof -
  have exact: "to_double (3 / 2) = 3 / 2" "to_double (13 / 2) = 13 / 2"
    "to_double (17 / 2) = 17 / 2" "to_double (11 / 2) = 11 / 2" "to_double 1 = 1"
    "to_double 3 = 3"
    by code_simp+
  show ?thesis
    by (simp add: stopPractice_def Let_def updateDetectionStatus_def updateSystemStatus_def
        evaluateLocally_def local_scores_def calculateClarity_def calculateConfidence_def
        Math_random_def generateFeedback_def displayResults_def new_evaluator_def
        round_half_up_def exact)
qed

text \<open>
  C10. In \<open>/api/evaluate\<close> the validation comes before the configuration check: a
  request whose transcript and voice flag are both falsy is answered 400 also when
  there is no client, and the answer is 503 exactly for the requests that pass
  validation while a client is missing.
\<close>

theorem validation_before_configuration:
  "(\<not> truthy (read_key b ''transcript'') \<and> \<not> truthy (read_key b ''hasVoice'')
      \<longrightarrow> evaluate_handler coerce ai b up = json_error 400 (Text ''No speech data provided'')
          \<and> status (evaluate_handler coerce ai b up) \<noteq> 503)
   \<and> (status (evaluate_handler coerce ai b up) = 503) =
       ((truthy (read_key b ''transcript'') \<or> truthy (read_key b ''hasVoice''))
        \<and> (\<not> genAI ai \<or> \<not> model ai))"
  by (auto simp: evaluate_handler_def json_error_def Let_def split: sum.splits)

text \<open>
  Instances, both without a client: a body with nothing but \<open>hasVoice\<close> false is
  answered 400; a body with a transcript is answered 503.
\<close>

theorem validation_before_configuration_witness:
  "evaluate_handler (\<lambda>v. Inr NaN) \<lparr>genAI = False, model = False\<rparr>
     [(''hasVoice'', Bool False)] (Throws ''unreachable'') =
     \<lparr>status = 400, success = False, error = Some (Text ''No speech data provided''),
      mode = None, evaluation = None, feedback = None\<rparr>
   \<and> status (evaluate_handler (\<lambda>v. Inr NaN) \<lparr>genAI = False, model = False\<rparr>
       [(''transcript'', Str ''Hello''), (''hasFace'', Bool True), (''hasVoice'', Bool True)]
       (Throws ''unreachable'')) = 503"
proof -
  let ?b = "[(''hasVoice'', Bool False)]"
  let ?b' = "[(''transcript'', Str ''Hello''), (''hasFace'', Bool True), (''hasVoice'', Bool True)]"
  have h: "\<not> truthy (read_key ?b ''transcript'') \<and> \<not> truthy (read_key ?b ''hasVoice'')"
    by (simp add: read_key_def)
  have h': "(truthy (read_key ?b' ''transcript'') \<or> truthy (read_key ?b' ''hasVoice''))
        \<and> (\<not> genAI \<lparr>genAI = False, model = False\<rparr> \<or> \<not> model \<lparr>genAI = False, model = False\<rparr>)"
    by (simp add: read_key_def)
  from h validation_before_configuration
    [of ?b "\<lambda>v. Inr NaN" "\<lparr>genAI = False, model = False\<rparr>" "Throws ''unreachable''"]
  have "evaluate_handler (\<lambda>v. Inr NaN) \<lparr>genAI = False, model = False\<rparr> ?b
      (Throws ''unreachable'') = json_error 400 (Text ''No speech data provided'')"
    by blast
  moreover from h' validation_before_configuration
    [of ?b' "\<lambda>v. Inr NaN" "\<lparr>genAI = False, model = False\<rparr>" "Throws ''unreachable''"]
  have "status (evaluate_handler (\<lambda>v. Inr NaN) \<lparr>genAI = False, model = False\<rparr> ?b'
      (Throws ''unreachable'')) = 503"
    by blast
  ultimately show ?thesis by (simp add: json_error_def)
qed

end
